theory Spec2Isabelle
  imports Main
begin

section \<open>JavaScript values\<close>

text \<open>
  The values careerHub.js handles: what \<open>JSON.parse\<close> builds from a request body or from
  careerData.json, and \<open>undefined\<close>, which a destructuring of an absent member yields.
  An object is the list of its members in insertion order. The handlers only test numbers
  for being zero and compute one index, so a number is an integer here.
\<close>

datatype jsval =
    JUndefined
  | JNull
  | JBool bool
  | JNum int
  | JStr string
  | JArr "jsval list"
  | JObj "(string \<times> jsval) list"

type_synonym obj = "(string \<times> jsval) list"

text \<open>The decimal digits of a number, as a template literal or a property key prints it.\<close>

fun decimal :: "nat \<Rightarrow> string" where
  "decimal n =
     (if n < 10 then [char_of (48 + n)]
      else decimal (n div 10) @ [char_of (48 + n mod 10)])"

declare decimal.simps [simp del]

text \<open>Truthiness, and \<open>a || b\<close>: the left operand unless it is falsy.\<close>

fun truthy :: "jsval \<Rightarrow> bool" where
  "truthy JUndefined = False"
| "truthy JNull = False"
| "truthy (JBool b) = b"
| "truthy (JNum n) = (n \<noteq> 0)"
| "truthy (JStr s) = (s \<noteq> [])"
| "truthy (JArr xs) = True"
| "truthy (JObj kvs) = True"

definition js_or :: "jsval \<Rightarrow> jsval \<Rightarrow> jsval" where
  "js_or a b = (if truthy a then a else b)"

text \<open>
  \<open>v.k\<close>, the read of a data property: a member of an object, an element or the length of
  an array or a string, \<open>undefined\<close> for everything else. The body parser
  (\<open>express.json()\<close>) hands a handler an object or an array, so the handlers never read a
  property of \<open>undefined\<close> or \<open>null\<close>.
\<close>

fun get_prop :: "jsval \<Rightarrow> string \<Rightarrow> jsval" where
  "get_prop (JObj kvs) k = (case map_of kvs k of None \<Rightarrow> JUndefined | Some v \<Rightarrow> v)"
| "get_prop (JArr xs) k =
     (if k = ''length'' then JNum (int (length xs))
      else case find (\<lambda>i. decimal i = k) [0..<length xs] of
             None \<Rightarrow> JUndefined
           | Some i \<Rightarrow> xs ! i)"
| "get_prop (JStr s) k =
     (if k = ''length'' then JNum (int (length s))
      else case find (\<lambda>i. decimal i = k) [0..<length s] of
             None \<Rightarrow> JUndefined
           | Some i \<Rightarrow> JStr [s ! i])"
| "get_prop v k = JUndefined"

text \<open>The own enumerable keys of a value, which \<open>Object.assign\<close> copies from.\<close>

fun own_keys :: "jsval \<Rightarrow> string list" where
  "own_keys (JObj kvs) = remdups (map fst kvs)"
| "own_keys (JArr xs) = map decimal [0..<length xs]"
| "own_keys (JStr s) = map decimal [0..<length s]"
| "own_keys v = []"

text \<open>\<open>o[k] = v\<close>: an existing member keeps its place, a new one goes last.\<close>

fun set_prop :: "string \<Rightarrow> jsval \<Rightarrow> obj \<Rightarrow> obj" where
  "set_prop k v [] = [(k, v)]"
| "set_prop k v (p # ps) = (if fst p = k then (k, v) # ps else p # set_prop k v ps)"

text \<open>
  \<open>Object.assign(target, source)\<close>: every own key of the source is written to the target.
  A write to \<open>__proto__\<close> goes to the prototype's setter and leaves the members of the
  target as they are.
\<close>

definition object_assign :: "obj \<Rightarrow> jsval \<Rightarrow> obj" where
  "object_assign t src =
     fold (\<lambda>k acc. if k = ''__proto__'' then acc else set_prop k (get_prop src k) acc)
       (own_keys src) t"

section \<open>Array helpers\<close>

text \<open>
  \<open>Array.prototype.find\<close> is \<^const>\<open>find\<close> of the list library.
  \<open>findIndex\<close> gives the index of the first match, \<open>None\<close> standing for \<open>-1\<close>.
\<close>

fun findIndex :: "('a \<Rightarrow> bool) \<Rightarrow> 'a list \<Rightarrow> nat option" where
  "findIndex P [] = None"
| "findIndex P (x # xs) =
     (if P x then Some 0 else map_option Suc (findIndex P xs))"

text \<open>
  The object \<open>find\<close> returned is a reference into the array: a write through it changes
  the first matching element in place.
\<close>

fun update_first :: "('a \<Rightarrow> bool) \<Rightarrow> ('a \<Rightarrow> 'a) \<Rightarrow> 'a list \<Rightarrow> 'a list" where
  "update_first P f [] = []"
| "update_first P f (x # xs) = (if P x then f x # xs else x # update_first P f xs)"


section \<open>The store\<close>

record version =
  content :: jsval
  timestamp :: string

record document =
  docId :: string
  title :: jsval
  versions :: "version list"
  currentVersion :: int

text \<open>
  An issue is a plain object: \<open>PUT\<close> merges any member of the request body into it.
  The graph is whatever the last \<open>POST /api/graph\<close> sent.
\<close>

record store =
  graphData :: jsval
  documents :: "document list"
  issues :: "obj list"

definition default_store :: store where
  "default_store =
     \<lparr>graphData = JObj [(''nodes'', JArr []), (''links'', JArr [])],
      documents = [], issues = []\<rparr>"

subsection \<open>Loading at startup\<close>

text \<open>
  careerData.json as startup meets it: absent (\<open>existsSync\<close> is false), present but
  \<open>readFileSync\<close> throws, or present with its text. \<open>JSON.parse\<close> is a parameter:
  \<open>None\<close> where it throws, else the parsed value, read at the type of the store.
\<close>

datatype data_file = Absent | Unreadable | Contents string

datatype logline = Info string | Error string

definition load :: "(string \<Rightarrow> store option) \<Rightarrow> data_file \<Rightarrow> store \<times> logline list" where
  "load parse f =
     (case f of
        Absent \<Rightarrow> (default_store, [])
      | Unreadable \<Rightarrow>
          (default_store, [Error ''Error reading careerData.json, starting with empty data:''])
      | Contents raw \<Rightarrow>
          (case parse raw of
             None \<Rightarrow>
               (default_store, [Error ''Error reading careerData.json, starting with empty data:''])
           | Some v \<Rightarrow> (v, [Info ''Loaded existing data from careerData.json''])))"

subsection \<open>The server and its responses\<close>

text \<open>
  The state of the process: the in-memory \<open>store\<close>, and \<open>written\<close>, the store value that
  \<open>saveData\<close> last serialised to careerData.json (\<open>None\<close> before the first save).
\<close>

record server =
  store :: store
  written :: "store option"

definition saveData :: "server \<Rightarrow> server" where
  "saveData sv = sv\<lparr>written := Some (store sv)\<rparr>"

definition startup :: "(string \<Rightarrow> store option) \<Rightarrow> data_file \<Rightarrow> server" where
  "startup parse f = \<lparr>store = fst (load parse f), written = None\<rparr>"

text \<open>What a handler passes to \<open>res.json\<close>, and the status it sets (200 unless set).\<close>

datatype payload = Json jsval | Document document | Documents "document list"

record response =
  status :: nat
  body :: payload

definition ok :: "payload \<Rightarrow> response" where
  "ok p = \<lparr>status = 200, body = p\<rparr>"

definition not_found :: "string \<Rightarrow> response" where
  "not_found msg = \<lparr>status = 404, body = Json (JObj [(''error'', JStr msg)])\<rparr>"

section \<open>Graph API\<close>

definition get_graph :: "server \<Rightarrow> response" where
  "get_graph sv = ok (Json (graphData (store sv)))"

definition post_graph :: "jsval \<Rightarrow> server \<Rightarrow> response \<times> server" where
  "post_graph reqBody sv =
     (let sv' = saveData (sv\<lparr>store := (store sv)\<lparr>graphData := reqBody\<rparr>\<rparr>)
      in (ok (Json (JObj [(''success'', JBool True), (''graphData'', graphData (store sv'))])),
          sv'))"


section \<open>Document API\<close>

text \<open>
  The clock is a parameter of the handlers that read it: \<open>now\<close> is \<open>Date.now()\<close>, the
  epoch milliseconds, and \<open>stamp\<close> is \<open>new Date().toISOString()\<close>.
\<close>

definition has_docId :: "string \<Rightarrow> document \<Rightarrow> bool" where
  "has_docId did d = (docId d = did)"

definition get_documents :: "server \<Rightarrow> response" where
  "get_documents sv = ok (Documents (documents (store sv)))"

definition get_document :: "string \<Rightarrow> server \<Rightarrow> response" where
  "get_document did sv =
     (case find (has_docId did) (documents (store sv)) of
        None \<Rightarrow> not_found ''Document not found''
      | Some doc \<Rightarrow> ok (Document doc))"

definition post_document :: "jsval \<Rightarrow> nat \<Rightarrow> string \<Rightarrow> server \<Rightarrow> response \<times> server" where
  "post_document reqBody now stamp sv =
     (let newDoc =
            \<lparr>docId = ''doc_'' @ decimal now,
             title = get_prop reqBody ''title'',
             versions = [\<lparr>content = get_prop reqBody ''content'', timestamp = stamp\<rparr>],
             currentVersion = 0\<rparr>;
          sv' = saveData
                  (sv\<lparr>store := (store sv)\<lparr>documents := documents (store sv) @ [newDoc]\<rparr>\<rparr>)
      in (ok (Document newDoc), sv'))"

definition commit :: "string \<Rightarrow> jsval \<Rightarrow> string \<Rightarrow> server \<Rightarrow> response \<times> server" where
  "commit did reqBody stamp sv =
     (case find (has_docId did) (documents (store sv)) of
        None \<Rightarrow> (not_found ''Document not found'', sv)
      | Some doc \<Rightarrow>
          (let pushed =
                 doc\<lparr>versions :=
                       versions doc @ [\<lparr>content = get_prop reqBody ''content'', timestamp = stamp\<rparr>]\<rparr>;
               doc' = pushed\<lparr>currentVersion := int (length (versions pushed)) - 1\<rparr>;
               sv' = saveData
                       (sv\<lparr>store := (store sv)
                              \<lparr>documents :=
                                 update_first (has_docId did) (\<lambda>_. doc') (documents (store sv))\<rparr>\<rparr>)
           in (ok (Document doc'), sv')))"

text \<open>A run of commit requests to one document id, each with its body and its timestamp.\<close>

fun commits :: "string \<Rightarrow> (jsval \<times> string) list \<Rightarrow> server \<Rightarrow> server" where
  "commits did [] sv = sv"
| "commits did (r # rs) sv = commits did rs (snd (commit did (fst r) (snd r) sv))"

text \<open>The version a commit request appends.\<close>

definition committed :: "jsval \<times> string \<Rightarrow> version" where
  "committed r = \<lparr>content = get_prop (fst r) ''content'', timestamp = snd r\<rparr>"

section \<open>Issue API\<close>

definition has_issueId :: "string \<Rightarrow> obj \<Rightarrow> bool" where
  "has_issueId iid i = (get_prop (JObj i) ''issueId'' = JStr iid)"

definition get_issues :: "server \<Rightarrow> response" where
  "get_issues sv = ok (Json (JArr (map JObj (issues (store sv)))))"

definition post_issue :: "jsval \<Rightarrow> nat \<Rightarrow> server \<Rightarrow> response \<times> server" where
  "post_issue reqBody now sv =
     (let newIssue =
            [(''issueId'', JStr (''issue_'' @ decimal now)),
             (''title'', js_or (get_prop reqBody ''title'') (JStr ''Untitled'')),
             (''description'', js_or (get_prop reqBody ''description'') (JStr [])),
             (''status'', js_or (get_prop reqBody ''status'') (JStr ''todo''))];
          sv' = saveData (sv\<lparr>store := (store sv)\<lparr>issues := issues (store sv) @ [newIssue]\<rparr>\<rparr>)
      in (ok (Json (JObj newIssue)), sv'))"

definition put_issue :: "string \<Rightarrow> jsval \<Rightarrow> server \<Rightarrow> response \<times> server" where
  "put_issue iid reqBody sv =
     (case find (has_issueId iid) (issues (store sv)) of
        None \<Rightarrow> (not_found ''Issue not found'', sv)
      | Some issue \<Rightarrow>
          (let issue' = object_assign issue reqBody;
               sv' = saveData
                       (sv\<lparr>store := (store sv)
                              \<lparr>issues :=
                                 update_first (has_issueId iid) (\<lambda>_. issue') (issues (store sv))\<rparr>\<rparr>)
           in (ok (Json (JObj issue')), sv')))"

text \<open>\<open>splice(index, 1)\<close> takes the element at \<open>index\<close> out and returns it in an array.\<close>

definition delete_issue :: "string \<Rightarrow> server \<Rightarrow> response \<times> server" where
  "delete_issue iid sv =
     (case findIndex (has_issueId iid) (issues (store sv)) of
        None \<Rightarrow> (not_found ''Issue not found'', sv)
      | Some index \<Rightarrow>
          (let removed = take 1 (drop index (issues (store sv)));
               sv' = saveData
                       (sv\<lparr>store := (store sv)
                              \<lparr>issues := take index (issues (store sv))
                                          @ drop (Suc index) (issues (store sv))\<rparr>\<rparr>)
           in (ok (Json (JObj [(''success'', JBool True),
                               (''removed'', JArr (map JObj removed))])),
               sv')))"

section \<open>Client graph view: the click handler of a node\<close>














section \<open>Example states\<close>

text \<open>The server started without a data file.\<close>

definition empty_server :: server where
  "empty_server = startup (\<lambda>raw. None) Absent"

text \<open>
  Two documents created within the same millisecond: both carry the identifier
  \<open>doc_5\<close>.
\<close>

definition two_docs :: server where
  "two_docs =
     snd (post_document (JObj [(''title'', JStr ''b''), (''content'', JStr ''y'')]) 5 ''t1''
       (snd (post_document (JObj [(''title'', JStr ''a''), (''content'', JStr ''x'')]) 5 ''t0''
          empty_server)))"

text \<open>The same store after one commit to \<open>doc_5\<close>, which the first of the two received.\<close>

definition shadowed_doc :: server where
  "shadowed_doc =
     commits (''doc_'' @ decimal 5) [(JObj [(''content'', JStr ''x2'')], ''t2'')] two_docs"

text \<open>
  A store read from a data file whose one document has two versions and points at the
  older one.
\<close>

definition older_version :: server where
  "older_version =
     \<lparr>store =
        \<lparr>graphData = JObj [(''nodes'', JArr []), (''links'', JArr [])],
         documents =
           [\<lparr>docId = ''doc_1'', title = JStr ''notes'',
             versions = [\<lparr>content = JStr ''one'', timestamp = ''t0''\<rparr>,
                         \<lparr>content = JStr ''two'', timestamp = ''t1''\<rparr>],
             currentVersion = 0\<rparr>],
         issues = []\<rparr>,
      written = None\<rparr>"

text \<open>Two issues created within the same millisecond: both carry \<open>issue_5\<close>.\<close>

definition two_issues :: server where
  "two_issues =
     snd (post_issue (JObj [(''title'', JStr ''second'')]) 5
       (snd (post_issue (JObj [(''title'', JStr ''first'')]) 5 empty_server)))"






section \<open>The first match of a list\<close>

text \<open>
  What \<open>find\<close> returns sits behind a prefix without a match; a write through it, or its
  removal, leaves the prefix and the rest of the list as they were.
\<close>

lemma find_first:
  "(\<forall>a\<in>set pre. \<not> P a) \<Longrightarrow> P x \<Longrightarrow> find P (pre @ x # post) = Some x"
  by (induction pre) auto

lemma find_split:
  "find P xs = Some x \<Longrightarrow>
   \<exists>pre post. xs = pre @ x # post \<and> (\<forall>a\<in>set pre. \<not> P a) \<and> P x"
proof (induction xs)
  case Nil
  then show ?case by simp
next
  case (Cons a xs)
  show ?case
  proof (cases "P a")
    case True
    with Cons.prems have "a = x" by simp
    with True show ?thesis by (intro exI[of _ "[]"] exI[of _ xs]) auto
  next
    case False
    with Cons obtain pre post where
      "xs = pre @ x # post" "\<forall>a\<in>set pre. \<not> P a" "P x"
      by auto
    with False show ?thesis by (intro exI[of _ "a # pre"] exI[of _ post]) auto
  qed
qed

lemma update_first_at:
  "(\<forall>a\<in>set pre. \<not> P a) \<Longrightarrow> P x \<Longrightarrow>
   update_first P f (pre @ x # post) = pre @ f x # post"
  by (induction pre) auto

lemma find_update_first:
  "find P xs = Some x \<Longrightarrow> P y \<Longrightarrow> find P (update_first P (\<lambda>_. y) xs) = Some y"
  by (induction xs) (auto split: if_splits)

lemma find_append_found:
  "find P xs = Some x \<Longrightarrow> find P (xs @ ys) = Some x"
  by (induction xs) (auto split: if_splits)

lemma decimal_7: "decimal 7 = ''7''"
  by code_simp

section \<open>Graph API: properties\<close>

text \<open>
  C1. For every request body, \<open>POST /api/graph\<close> with that body followed by
  \<open>GET /api/graph\<close> returns, with status 200, a value equal to the body: the post
  replaces the stored graph by the body as it is.
\<close>

theorem C1_graph_roundtrip:
  "get_graph (snd (post_graph b sv)) = \<lparr>status = 200, body = Json b\<rparr>
   \<and> graphData (store (snd (post_graph b sv))) = b"
  by (simp add: get_graph_def post_graph_def saveData_def ok_def Let_def)

text \<open>
  C2, as amended. For every request body \<open>b\<close>, \<open>POST /api/graph\<close> answers with status
  200 and the object \<open>{success: true, graphData: b}\<close>: the stored graph is the
  \<open>graphData\<close> member of the response, not the response itself. The stored graph is
  \<open>b\<close>, it has been saved, and a following \<open>GET /api/graph\<close> returns \<open>b\<close>.
\<close>

theorem C2_post_graph_response:
  "fst (post_graph b sv) =
     \<lparr>status = 200, body = Json (JObj [(''success'', JBool True), (''graphData'', b)])\<rparr>
   \<and> graphData (store (snd (post_graph b sv))) = b
   \<and> written (snd (post_graph b sv)) = Some (store (snd (post_graph b sv)))
   \<and> get_graph (snd (post_graph b sv)) = \<lparr>status = 200, body = Json b\<rparr>"
  by (simp add: get_graph_def post_graph_def saveData_def ok_def Let_def)

text \<open>
  The claim as stated fails: posting the empty graph to the server started without a data
  file, the response body is not the stored graph that the following \<open>GET\<close> returns.
\<close>

theorem C2_counterexample:
  "body (fst (post_graph (JObj [(''nodes'', JArr []), (''links'', JArr [])]) empty_server))
     = Json (JObj [(''success'', JBool True),
                   (''graphData'', JObj [(''nodes'', JArr []), (''links'', JArr [])])])
   \<and> graphData (store
        (snd (post_graph (JObj [(''nodes'', JArr []), (''links'', JArr [])]) empty_server)))
     = JObj [(''nodes'', JArr []), (''links'', JArr [])]
   \<and> body (fst (post_graph (JObj [(''nodes'', JArr []), (''links'', JArr [])]) empty_server))
     \<noteq> Json (graphData (store
           (snd (post_graph (JObj [(''nodes'', JArr []), (''links'', JArr [])]) empty_server))))
   \<and> fst (post_graph (JObj [(''nodes'', JArr []), (''links'', JArr [])]) empty_server)
     \<noteq> get_graph (snd (post_graph (JObj [(''nodes'', JArr []), (''links'', JArr [])]) empty_server))"
  by (simp add: get_graph_def post_graph_def saveData_def ok_def Let_def)

section \<open>Document API: properties\<close>

lemma commit_found:
  assumes "find (has_docId did) (documents (store sv)) = Some d"
  shows "commit did b st sv =
     (ok (Document (d\<lparr>versions := versions d @ [committed (b, st)],
                      currentVersion := int (length (versions d))\<rparr>)),
      saveData (sv\<lparr>store := (store sv)\<lparr>documents :=
         update_first (has_docId did)
           (\<lambda>_. d\<lparr>versions := versions d @ [committed (b, st)],
                   currentVersion := int (length (versions d))\<rparr>) (documents (store sv))\<rparr>\<rparr>))"
  using assms by (simp add: commit_def committed_def Let_def)

lemma commit_missing:
  "find (has_docId did) (documents (store sv)) = None \<Longrightarrow>
   commit did b st sv = (not_found ''Document not found'', sv)"
  by (simp add: commit_def)

lemma commit_lookup:
  assumes "find (has_docId did) (documents (store sv)) = Some d"
  shows "find (has_docId did) (documents (store (snd (commit did b st sv)))) =
     Some (d\<lparr>versions := versions d @ [committed (b, st)],
              currentVersion := int (length (versions d))\<rparr>)"
proof -
  have "has_docId did d" using assms by (auto dest: find_Some_iff[THEN iffD1])
  then have "has_docId did (d\<lparr>versions := versions d @ [committed (b, st)],
              currentVersion := int (length (versions d))\<rparr>)"
    by (simp add: has_docId_def)
  with assms show ?thesis
    by (simp add: commit_found saveData_def find_update_first)
qed

lemma commits_lookup:
  "find (has_docId did) (documents (store sv)) = Some d \<Longrightarrow>
   find (has_docId did) (documents (store (commits did rs sv))) =
     Some (d\<lparr>versions := versions d @ map committed rs,
              currentVersion :=
                (if rs = [] then currentVersion d
                 else int (length (versions d) + length rs) - 1)\<rparr>)"
proof (induction rs arbitrary: sv d)
  case Nil
  then show ?case by simp
next
  case (Cons r rs)
  let ?d1 = "d\<lparr>versions := versions d @ [committed r],
              currentVersion := int (length (versions d))\<rparr>"
  have "find (has_docId did) (documents (store (snd (commit did (fst r) (snd r) sv)))) = Some ?d1"
    using commit_lookup[OF Cons.prems, of "fst r" "snd r"] by simp
  from Cons.IH[OF this] show ?case by (cases rs) simp_all
qed

lemma commits_documents:
  "documents (store sv) = pre @ d # post \<Longrightarrow> (\<forall>a\<in>set pre. \<not> has_docId did a) \<Longrightarrow>
   has_docId did d \<Longrightarrow>
   documents (store (commits did rs sv)) =
     pre @ d\<lparr>versions := versions d @ map committed rs,
              currentVersion :=
                (if rs = [] then currentVersion d
                 else int (length (versions d) + length rs) - 1)\<rparr> # post"
proof (induction rs arbitrary: sv d)
  case Nil
  then show ?case by simp
next
  case (Cons r rs)
  let ?d1 = "d\<lparr>versions := versions d @ [committed r],
              currentVersion := int (length (versions d))\<rparr>"
  have f: "find (has_docId did) (documents (store sv)) = Some d"
    using Cons.prems by (simp add: find_first)
  have "documents (store (snd (commit did (fst r) (snd r) sv))) = pre @ ?d1 # post"
    using Cons.prems by (simp add: commit_found[OF f] saveData_def update_first_at)
  moreover have "has_docId did ?d1" using Cons.prems(3) by (simp add: has_docId_def)
  ultimately show ?case
    using Cons.IH[of "snd (commit did (fst r) (snd r) sv)" ?d1] Cons.prems(2)
    by (cases rs) simp_all
qed

text \<open>
  C3, as amended. Let \<open>d\<close> be the document the lookup finds for \<open>did\<close>, that is the first
  document of the store with that identifier. A run of \<open>n\<close> commit requests to \<open>did\<close>
  changes that document only: its versions are the earlier ones, in their order, followed
  by one version for each request holding the submitted content, so their number is the
  initial one plus \<open>n\<close>; after at least one commit \<open>currentVersion\<close> is the index of the
  last version, and with no commit the document is as it was. Each commit answers 200 with
  the document as it then is. When no document has the identifier, the commit answers 404
  with \<open>{error: "Document not found"}\<close> and changes nothing. A document just created under
  an identifier no earlier document has, has \<open>n + 1\<close> versions and \<open>currentVersion = n\<close>
  after \<open>n\<close> commits.
\<close>

theorem C3_commits:
  "(find (has_docId did) (documents (store sv)) = Some d \<longrightarrow>
      (\<exists>pre post d'.
          documents (store sv) = pre @ d # post
        \<and> (\<forall>a\<in>set pre. \<not> has_docId did a)
        \<and> documents (store (commits did rs sv)) = pre @ d' # post
        \<and> find (has_docId did) (documents (store (commits did rs sv))) = Some d'
        \<and> docId d' = docId d \<and> title d' = title d
        \<and> versions d' = versions d @ map committed rs
        \<and> length (versions d') = length (versions d) + length rs
        \<and> (rs \<noteq> [] \<longrightarrow> currentVersion d' = int (length (versions d')) - 1)
        \<and> (rs = [] \<longrightarrow> d' = d))
      \<and> fst (commit did b st sv) =
            \<lparr>status = 200,
             body = Document (d\<lparr>versions := versions d @ [committed (b, st)],
                               currentVersion := int (length (versions d))\<rparr>)\<rparr>)
   \<and> (find (has_docId missing) (documents (store sv)) = None \<longrightarrow>
        commit missing b st sv =
          (\<lparr>status = 404, body = Json (JObj [(''error'', JStr ''Document not found'')])\<rparr>, sv))
   \<and> (find (has_docId (''doc_'' @ decimal now)) (documents (store sv)) = None \<longrightarrow>
        (\<exists>d'. find (has_docId (''doc_'' @ decimal now))
                 (documents (store (commits (''doc_'' @ decimal now) rs
                    (snd (post_document b0 now st0 sv))))) = Some d'
            \<and> versions d' = \<lparr>content = get_prop b0 ''content'', timestamp = st0\<rparr> # map committed rs
            \<and> length (versions d') = length rs + 1
            \<and> currentVersion d' = int (length rs)))"
proof (intro conjI impI)
  assume f: "find (has_docId did) (documents (store sv)) = Some d"
  from find_split[OF f] obtain pre post where
    s: "documents (store sv) = pre @ d # post" "\<forall>a\<in>set pre. \<not> has_docId did a" "has_docId did d"
    by blast
  define d' where "d' = d\<lparr>versions := versions d @ map committed rs,
              currentVersion :=
                (if rs = [] then currentVersion d
                 else int (length (versions d) + length rs) - 1)\<rparr>"
  have a: "documents (store (commits did rs sv)) = pre @ d' # post"
    unfolding d'_def by (rule commits_documents[OF s])
  have b: "find (has_docId did) (documents (store (commits did rs sv))) = Some d'"
    unfolding d'_def by (rule commits_lookup[OF f])
  show "\<exists>pre post d'.
          documents (store sv) = pre @ d # post
        \<and> (\<forall>a\<in>set pre. \<not> has_docId did a)
        \<and> documents (store (commits did rs sv)) = pre @ d' # post
        \<and> find (has_docId did) (documents (store (commits did rs sv))) = Some d'
        \<and> docId d' = docId d \<and> title d' = title d
        \<and> versions d' = versions d @ map committed rs
        \<and> length (versions d') = length (versions d) + length rs
        \<and> (rs \<noteq> [] \<longrightarrow> currentVersion d' = int (length (versions d')) - 1)
        \<and> (rs = [] \<longrightarrow> d' = d)"
  proof (intro exI conjI)
    show "documents (store sv) = pre @ d # post" by (rule s(1))
    show "\<forall>a\<in>set pre. \<not> has_docId did a" by (rule s(2))
    show "documents (store (commits did rs sv)) = pre @ d' # post" by (rule a)
    show "find (has_docId did) (documents (store (commits did rs sv))) = Some d'" by (rule b)
    show "docId d' = docId d" by (simp add: d'_def)
    show "title d' = title d" by (simp add: d'_def)
    show "versions d' = versions d @ map committed rs" by (simp add: d'_def)
    show "length (versions d') = length (versions d) + length rs" by (simp add: d'_def)
    show "rs \<noteq> [] \<longrightarrow> currentVersion d' = int (length (versions d')) - 1"
      by (simp add: d'_def)
    show "rs = [] \<longrightarrow> d' = d" by (simp add: d'_def)
  qed
  show "fst (commit did b st sv) =
            \<lparr>status = 200,
             body = Document (d\<lparr>versions := versions d @ [committed (b, st)],
                               currentVersion := int (length (versions d))\<rparr>)\<rparr>"
    by (simp add: commit_found[OF f] ok_def)
next
  assume "find (has_docId missing) (documents (store sv)) = None"
  then show "commit missing b st sv =
          (\<lparr>status = 404, body = Json (JObj [(''error'', JStr ''Document not found'')])\<rparr>, sv)"
    by (simp add: commit_missing not_found_def)
next
  let ?did = "''doc_'' @ decimal now"
  let ?new = "\<lparr>docId = ?did, title = get_prop b0 ''title'',
               versions = [\<lparr>content = get_prop b0 ''content'', timestamp = st0\<rparr>],
               currentVersion = 0\<rparr>"
  assume n: "find (has_docId ?did) (documents (store sv)) = None"
  have "find (has_docId ?did) (documents (store (snd (post_document b0 now st0 sv)))) = Some ?new"
    using n by (simp add: post_document_def saveData_def Let_def find_first find_None_iff has_docId_def)
  from commits_lookup[OF this, of rs]
  show "\<exists>d'. find (has_docId ?did)
                 (documents (store (commits ?did rs (snd (post_document b0 now st0 sv))))) = Some d'
            \<and> versions d' = \<lparr>content = get_prop b0 ''content'', timestamp = st0\<rparr> # map committed rs
            \<and> length (versions d') = length rs + 1
            \<and> currentVersion d' = int (length rs)"
    by (cases rs) simp_all
qed

text \<open>
  The claim as stated fails for a document behind another with the same identifier. Two
  documents were created within the same millisecond and one commit followed: the first
  has two versions, the second one. The second exists, and a commit to its identifier
  leaves it with one version, while the first, which the response returns, gets its
  third: no document has the second's one version plus one. And with no commit at all, a
  document read from the data file keeps the \<open>currentVersion\<close> it had, here 0 with two
  versions.
\<close>

theorem C3_counterexample:
  "map docId (documents (store shadowed_doc)) = [''doc_'' @ decimal 5, ''doc_'' @ decimal 5]
   \<and> map (\<lambda>d. length (versions d)) (documents (store shadowed_doc)) = [2, 1]
   \<and> map (\<lambda>d. length (versions d))
        (documents (store
          (commits (''doc_'' @ decimal 5) [(JObj [(''content'', JStr ''z'')], ''t3'')]
             shadowed_doc))) = [3, 1]
   \<and> length (versions (documents (store
          (commits (''doc_'' @ decimal 5) [(JObj [(''content'', JStr ''z'')], ''t3'')]
             shadowed_doc)) ! 1))
       \<noteq> length (versions (documents (store shadowed_doc) ! 1)) + 1
   \<and> find (has_docId ''doc_1'') (documents (store older_version)) \<noteq> None
   \<and> currentVersion (documents (store (commits ''doc_1'' [] older_version)) ! 0)
       \<noteq> int (length (versions (documents (store (commits ''doc_1'' [] older_version)) ! 0))) - 1"
  by (simp add: shadowed_doc_def two_docs_def older_version_def empty_server_def startup_def
      load_def default_store_def post_document_def commit_def saveData_def has_docId_def
      ok_def Let_def)

theorem C3_commits_witness:
  "find (has_docId ''doc_1'') (documents (store older_version)) =
     Some \<lparr>docId = ''doc_1'', title = JStr ''notes'',
           versions = [\<lparr>content = JStr ''one'', timestamp = ''t0''\<rparr>,
                       \<lparr>content = JStr ''two'', timestamp = ''t1''\<rparr>],
           currentVersion = 0\<rparr>
   \<and> find (has_docId ''doc_9'') (documents (store older_version)) = None
   \<and> find (has_docId (''doc_'' @ decimal 7)) (documents (store older_version)) = None
   \<and> (\<exists>d'. find (has_docId ''doc_1'')
             (documents (store (commits ''doc_1''
                [(JObj [(''content'', JStr ''three'')], ''t2''),
                 (JObj [(''content'', JStr ''four'')], ''t3'')] older_version))) = Some d'
          \<and> map content (versions d') = [JStr ''one'', JStr ''two'', JStr ''three'', JStr ''four'']
          \<and> currentVersion d' = 3)
   \<and> status (fst (commit ''doc_9'' (JObj [(''content'', JStr ''three'')]) ''t2'' older_version)) = 404
   \<and> (\<exists>d'. find (has_docId (''doc_'' @ decimal 7))
             (documents (store (commits (''doc_'' @ decimal 7)
                [(JObj [(''content'', JStr ''three'')], ''t2''),
                 (JObj [(''content'', JStr ''four'')], ''t3'')]
                (snd (post_document (JObj [(''title'', JStr ''new''), (''content'', JStr ''zero'')])
                        7 ''t1'' older_version))))) = Some d'
          \<and> length (versions d') = 3 \<and> currentVersion d' = 2)
   \<and> find (has_docId ''doc_1'') (documents (store (commits ''doc_1'' [] older_version))) =
       find (has_docId ''doc_1'') (documents (store older_version))"
proof -
  let ?d = "\<lparr>docId = ''doc_1'', title = JStr ''notes'',
           versions = [\<lparr>content = JStr ''one'', timestamp = ''t0''\<rparr>,
                       \<lparr>content = JStr ''two'', timestamp = ''t1''\<rparr>],
           currentVersion = 0\<rparr>"
  have h1: "find (has_docId ''doc_1'') (documents (store older_version)) = Some ?d"
    by (simp add: older_version_def has_docId_def)
  have h2: "find (has_docId ''doc_9'') (documents (store older_version)) = None"
    by (simp add: older_version_def has_docId_def)
  have h3: "find (has_docId (''doc_'' @ decimal 7)) (documents (store older_version)) = None"
    by (simp add: older_version_def has_docId_def decimal_7)
  show ?thesis
    using h1 h2 h3
      C3_commits[of "''doc_1''" older_version ?d
        "[(JObj [(''content'', JStr ''three'')], ''t2''),
          (JObj [(''content'', JStr ''four'')], ''t3'')]"
        "JObj [(''content'', JStr ''three'')]" "''t2''" "''doc_9''" 7
        "JObj [(''title'', JStr ''new''), (''content'', JStr ''zero'')]" "''t1''"]
      C3_commits[of "''doc_1''" older_version ?d "[]"
        "JObj [(''content'', JStr ''three'')]" "''t2''" "''doc_9''" 7
        "JObj [(''title'', JStr ''new''), (''content'', JStr ''zero'')]" "''t1''"]
    by (auto simp: committed_def)
qed

lemma get_document_found:
  "find (has_docId did) (documents (store sv)) = Some d \<Longrightarrow>
   get_document did sv = \<lparr>status = 200, body = Document d\<rparr>"
  by (simp add: get_document_def ok_def)

text \<open>
  C4, as amended. For every request body, \<open>POST /api/documents\<close> answers 200 with the
  document it appended to the store: its \<open>docId\<close> is \<open>doc_\<close> followed by the epoch
  milliseconds, it has exactly one version, whose content is the submitted content, and
  \<open>currentVersion = 0\<close>. A following \<open>GET /api/documents/:docId\<close> with that identifier
  returns the same document when no document of the store had that identifier before;
  when one had (identifiers come from the clock and may collide), it returns that earlier
  document.
\<close>

theorem C4_create_document:
  "fst (post_document b now st sv) =
     \<lparr>status = 200,
      body = Document
        \<lparr>docId = ''doc_'' @ decimal now, title = get_prop b ''title'',
         versions = [\<lparr>content = get_prop b ''content'', timestamp = st\<rparr>],
         currentVersion = 0\<rparr>\<rparr>
   \<and> documents (store (snd (post_document b now st sv))) =
       documents (store sv) @
         [\<lparr>docId = ''doc_'' @ decimal now, title = get_prop b ''title'',
           versions = [\<lparr>content = get_prop b ''content'', timestamp = st\<rparr>],
           currentVersion = 0\<rparr>]
   \<and> (find (has_docId (''doc_'' @ decimal now)) (documents (store sv)) = None \<longrightarrow>
        get_document (''doc_'' @ decimal now) (snd (post_document b now st sv)) =
          fst (post_document b now st sv))
   \<and> (find (has_docId (''doc_'' @ decimal now)) (documents (store sv2)) = Some e \<longrightarrow>
        get_document (''doc_'' @ decimal now) (snd (post_document b now st sv2)) =
          \<lparr>status = 200, body = Document e\<rparr>)"
proof (intro conjI impI)
  show "fst (post_document b now st sv) =
     \<lparr>status = 200,
      body = Document
        \<lparr>docId = ''doc_'' @ decimal now, title = get_prop b ''title'',
         versions = [\<lparr>content = get_prop b ''content'', timestamp = st\<rparr>],
         currentVersion = 0\<rparr>\<rparr>"
    by (simp add: post_document_def ok_def Let_def)
  show "documents (store (snd (post_document b now st sv))) =
       documents (store sv) @
         [\<lparr>docId = ''doc_'' @ decimal now, title = get_prop b ''title'',
           versions = [\<lparr>content = get_prop b ''content'', timestamp = st\<rparr>],
           currentVersion = 0\<rparr>]"
    by (simp add: post_document_def saveData_def Let_def)
next
  assume "find (has_docId (''doc_'' @ decimal now)) (documents (store sv)) = None"
  then have "\<forall>a\<in>set (documents (store sv)). \<not> has_docId (''doc_'' @ decimal now) a"
    by (simp add: find_None_iff)
  then have "find (has_docId (''doc_'' @ decimal now))
               (documents (store (snd (post_document b now st sv)))) =
             Some \<lparr>docId = ''doc_'' @ decimal now, title = get_prop b ''title'',
                   versions = [\<lparr>content = get_prop b ''content'', timestamp = st\<rparr>],
                   currentVersion = 0\<rparr>"
    by (simp add: post_document_def saveData_def Let_def find_first has_docId_def)
  then show "get_document (''doc_'' @ decimal now) (snd (post_document b now st sv)) =
          fst (post_document b now st sv)"
    by (simp add: get_document_found) (simp add: post_document_def ok_def Let_def)
next
  assume "find (has_docId (''doc_'' @ decimal now)) (documents (store sv2)) = Some e"
  then have "find (has_docId (''doc_'' @ decimal now))
               (documents (store (snd (post_document b now st sv2)))) = Some e"
    by (simp add: post_document_def saveData_def Let_def find_append_found)
  then show "get_document (''doc_'' @ decimal now) (snd (post_document b now st sv2)) =
          \<lparr>status = 200, body = Document e\<rparr>"
    by (rule get_document_found)
qed

text \<open>
  The claim as stated fails when the clock has not moved since an earlier creation: the
  second of two documents created in millisecond 5 is returned by its \<open>POST\<close>, and the
  \<open>GET\<close> with its identifier returns the first one.
\<close>

theorem C4_counterexample:
  "get_document (''doc_'' @ decimal 5)
     (snd (post_document (JObj [(''title'', JStr ''b''), (''content'', JStr ''y'')]) 5 ''t1''
        (snd (post_document (JObj [(''title'', JStr ''a''), (''content'', JStr ''x'')]) 5 ''t0''
           empty_server))))
   \<noteq> fst (post_document (JObj [(''title'', JStr ''b''), (''content'', JStr ''y'')]) 5 ''t1''
        (snd (post_document (JObj [(''title'', JStr ''a''), (''content'', JStr ''x'')]) 5 ''t0''
           empty_server)))"
  by (simp add: empty_server_def startup_def load_def default_store_def
      post_document_def get_document_def saveData_def has_docId_def ok_def Let_def)

theorem C4_create_document_witness:
  "find (has_docId (''doc_'' @ decimal 5)) (documents (store empty_server)) = None
   \<and> find (has_docId (''doc_'' @ decimal 5)) (documents (store two_docs)) =
       Some \<lparr>docId = ''doc_'' @ decimal 5, title = JStr ''a'',
             versions = [\<lparr>content = JStr ''x'', timestamp = ''t0''\<rparr>], currentVersion = 0\<rparr>
   \<and> get_document (''doc_'' @ decimal 5)
        (snd (post_document (JObj [(''title'', JStr ''c''), (''content'', JStr ''z'')]) 5 ''t2''
           empty_server)) =
       \<lparr>status = 200,
        body = Document
          \<lparr>docId = ''doc_'' @ decimal 5, title = JStr ''c'',
           versions = [\<lparr>content = JStr ''z'', timestamp = ''t2''\<rparr>], currentVersion = 0\<rparr>\<rparr>
   \<and> get_document (''doc_'' @ decimal 5)
        (snd (post_document (JObj [(''title'', JStr ''c''), (''content'', JStr ''z'')]) 5 ''t2''
           two_docs)) =
       \<lparr>status = 200,
        body = Document
          \<lparr>docId = ''doc_'' @ decimal 5, title = JStr ''a'',
           versions = [\<lparr>content = JStr ''x'', timestamp = ''t0''\<rparr>], currentVersion = 0\<rparr>\<rparr>"
proof -
  let ?a = "\<lparr>docId = ''doc_'' @ decimal 5, title = JStr ''a'',
             versions = [\<lparr>content = JStr ''x'', timestamp = ''t0''\<rparr>], currentVersion = 0\<rparr>"
  have h1: "find (has_docId (''doc_'' @ decimal 5)) (documents (store empty_server)) = None"
    by (simp add: empty_server_def startup_def load_def default_store_def)
  have h2: "find (has_docId (''doc_'' @ decimal 5)) (documents (store two_docs)) = Some ?a"
    by (simp add: two_docs_def empty_server_def startup_def load_def default_store_def
        post_document_def saveData_def has_docId_def Let_def)
  show ?thesis
    using h1 h2
      C4_create_document[of "JObj [(''title'', JStr ''c''), (''content'', JStr ''z'')]" 5 "''t2''"
        empty_server two_docs ?a]
    by simp
qed

section \<open>Issue API: properties\<close>

lemma findIndex_first:
  "(\<forall>a\<in>set pre. \<not> P a) \<Longrightarrow> P x \<Longrightarrow> findIndex P (pre @ x # post) = Some (length pre)"
  by (induction pre) auto

lemma findIndex_none:
  "(\<forall>a\<in>set xs. \<not> P a) \<Longrightarrow> findIndex P xs = None"
  by (induction xs) auto

lemma find_none:
  "(\<forall>a\<in>set xs. \<not> P a) \<Longrightarrow> find P xs = None"
  by (simp add: find_None_iff)

lemma delete_issue_first:
  assumes "issues (store sv) = pre @ i # post"
      and "\<forall>j\<in>set pre. \<not> has_issueId iid j"
      and "has_issueId iid i"
  shows "delete_issue iid sv =
     (\<lparr>status = 200,
       body = Json (JObj [(''success'', JBool True), (''removed'', JArr [JObj i])])\<rparr>,
      sv\<lparr>store := (store sv)\<lparr>issues := pre @ post\<rparr>,
         written := Some ((store sv)\<lparr>issues := pre @ post\<rparr>)\<rparr>)"
  using assms by (simp add: delete_issue_def findIndex_first saveData_def ok_def Let_def)

lemma delete_issue_missing:
  "(\<forall>j\<in>set (issues (store sv)). \<not> has_issueId iid j) \<Longrightarrow>
   delete_issue iid sv =
     (\<lparr>status = 404, body = Json (JObj [(''error'', JStr ''Issue not found'')])\<rparr>, sv)"
  by (simp add: delete_issue_def findIndex_none not_found_def)

lemma put_issue_missing:
  "(\<forall>j\<in>set (issues (store sv)). \<not> has_issueId iid j) \<Longrightarrow>
   put_issue iid b sv =
     (\<lparr>status = 404, body = Json (JObj [(''error'', JStr ''Issue not found'')])\<rparr>, sv)"
  by (simp add: put_issue_def find_none not_found_def)

lemma put_issue_first:
  assumes "issues (store sv) = pre @ i # post"
      and "\<forall>j\<in>set pre. \<not> has_issueId iid j"
      and "has_issueId iid i"
  shows "put_issue iid b sv =
     (\<lparr>status = 200, body = Json (JObj (object_assign i b))\<rparr>,
      sv\<lparr>store := (store sv)\<lparr>issues := pre @ object_assign i b # post\<rparr>,
         written := Some ((store sv)\<lparr>issues := pre @ object_assign i b # post\<rparr>)\<rparr>)"
  using assms
  by (simp add: put_issue_def find_first update_first_at saveData_def ok_def Let_def)

text \<open>
  C5, as amended. For every request body, \<open>POST /api/issues\<close> answers 200 with the issue
  it appended to the list: its \<open>issueId\<close> is \<open>issue_\<close> followed by the epoch
  milliseconds; \<open>title\<close>, \<open>description\<close> and \<open>status\<close> are the values of the body where
  these are truthy, and \<open>"Untitled"\<close>, \<open>""\<close> and \<open>"todo"\<close> where they are absent or falsy
  (the empty string, \<open>null\<close>, \<open>false\<close>, 0). A following \<open>GET /api/issues\<close> returns the
  earlier issues followed by the created one, which is the only issue with its identifier
  when no earlier issue had it.
\<close>

theorem C5_create_issue:
  "fst (post_issue b now sv) =
     \<lparr>status = 200,
      body = Json (JObj
        [(''issueId'', JStr (''issue_'' @ decimal now)),
         (''title'',
            if truthy (get_prop b ''title'') then get_prop b ''title'' else JStr ''Untitled''),
         (''description'',
            if truthy (get_prop b ''description'') then get_prop b ''description'' else JStr []),
         (''status'',
            if truthy (get_prop b ''status'') then get_prop b ''status'' else JStr ''todo'')])\<rparr>
   \<and> (\<exists>i. body (fst (post_issue b now sv)) = Json (JObj i)
         \<and> issues (store (snd (post_issue b now sv))) = issues (store sv) @ [i]
         \<and> get_issues (snd (post_issue b now sv)) =
             \<lparr>status = 200, body = Json (JArr (map JObj (issues (store sv)) @ [JObj i]))\<rparr>
         \<and> has_issueId (''issue_'' @ decimal now) i
         \<and> (get_prop b ''title'' = JUndefined \<longrightarrow> get_prop (JObj i) ''title'' = JStr ''Untitled'')
         \<and> (get_prop b ''description'' = JUndefined \<longrightarrow> get_prop (JObj i) ''description'' = JStr [])
         \<and> (get_prop b ''status'' = JUndefined \<longrightarrow> get_prop (JObj i) ''status'' = JStr ''todo'')
         \<and> (truthy (get_prop b ''title'') \<longrightarrow> get_prop (JObj i) ''title'' = get_prop b ''title'')
         \<and> (truthy (get_prop b ''description'') \<longrightarrow>
               get_prop (JObj i) ''description'' = get_prop b ''description'')
         \<and> (truthy (get_prop b ''status'') \<longrightarrow> get_prop (JObj i) ''status'' = get_prop b ''status'')
         \<and> ((\<forall>j\<in>set (issues (store sv)). \<not> has_issueId (''issue_'' @ decimal now) j) \<longrightarrow>
               filter (has_issueId (''issue_'' @ decimal now))
                 (issues (store (snd (post_issue b now sv)))) = [i]))"
proof (rule conjI)
  let ?i = "[(''issueId'', JStr (''issue_'' @ decimal now)),
         (''title'',
            if truthy (get_prop b ''title'') then get_prop b ''title'' else JStr ''Untitled''),
         (''description'',
            if truthy (get_prop b ''description'') then get_prop b ''description'' else JStr []),
         (''status'',
            if truthy (get_prop b ''status'') then get_prop b ''status'' else JStr ''todo'')]"
  show r: "fst (post_issue b now sv) = \<lparr>status = 200, body = Json (JObj ?i)\<rparr>"
    by (simp add: post_issue_def js_or_def ok_def Let_def)
  have l: "issues (store (snd (post_issue b now sv))) = issues (store sv) @ [?i]"
    by (simp add: post_issue_def js_or_def saveData_def Let_def)
  have h: "has_issueId (''issue_'' @ decimal now) ?i"
    by (simp add: has_issueId_def)
  show "\<exists>i. body (fst (post_issue b now sv)) = Json (JObj i)
         \<and> issues (store (snd (post_issue b now sv))) = issues (store sv) @ [i]
         \<and> get_issues (snd (post_issue b now sv)) =
             \<lparr>status = 200, body = Json (JArr (map JObj (issues (store sv)) @ [JObj i]))\<rparr>
         \<and> has_issueId (''issue_'' @ decimal now) i
         \<and> (get_prop b ''title'' = JUndefined \<longrightarrow> get_prop (JObj i) ''title'' = JStr ''Untitled'')
         \<and> (get_prop b ''description'' = JUndefined \<longrightarrow> get_prop (JObj i) ''description'' = JStr [])
         \<and> (get_prop b ''status'' = JUndefined \<longrightarrow> get_prop (JObj i) ''status'' = JStr ''todo'')
         \<and> (truthy (get_prop b ''title'') \<longrightarrow> get_prop (JObj i) ''title'' = get_prop b ''title'')
         \<and> (truthy (get_prop b ''description'') \<longrightarrow>
               get_prop (JObj i) ''description'' = get_prop b ''description'')
         \<and> (truthy (get_prop b ''status'') \<longrightarrow> get_prop (JObj i) ''status'' = get_prop b ''status'')
         \<and> ((\<forall>j\<in>set (issues (store sv)). \<not> has_issueId (''issue_'' @ decimal now) j) \<longrightarrow>
               filter (has_issueId (''issue_'' @ decimal now))
                 (issues (store (snd (post_issue b now sv)))) = [i])"
  proof (intro exI conjI impI)
    show "body (fst (post_issue b now sv)) = Json (JObj ?i)" by (simp add: r)
    show "issues (store (snd (post_issue b now sv))) = issues (store sv) @ [?i]" by (rule l)
    show "get_issues (snd (post_issue b now sv)) =
             \<lparr>status = 200, body = Json (JArr (map JObj (issues (store sv)) @ [JObj ?i]))\<rparr>"
      by (simp add: get_issues_def l ok_def)
    show "has_issueId (''issue_'' @ decimal now) ?i" by (rule h)
    show "get_prop (JObj ?i) ''title'' = JStr ''Untitled''" if "get_prop b ''title'' = JUndefined"
      using that by simp
    show "get_prop (JObj ?i) ''description'' = JStr []" if "get_prop b ''description'' = JUndefined"
      using that by simp
    show "get_prop (JObj ?i) ''status'' = JStr ''todo''" if "get_prop b ''status'' = JUndefined"
      using that by simp
    show "get_prop (JObj ?i) ''title'' = get_prop b ''title''" if "truthy (get_prop b ''title'')"
      using that by simp
    show "get_prop (JObj ?i) ''description'' = get_prop b ''description''"
      if "truthy (get_prop b ''description'')"
      using that by simp
    show "get_prop (JObj ?i) ''status'' = get_prop b ''status''" if "truthy (get_prop b ''status'')"
      using that by simp
    show "filter (has_issueId (''issue_'' @ decimal now))
            (issues (store (snd (post_issue b now sv)))) = [?i]"
      if "\<forall>j\<in>set (issues (store sv)). \<not> has_issueId (''issue_'' @ decimal now) j"
      using that h by (simp add: l filter_empty_conv)
  qed
qed

text \<open>
  The claim as stated fails on a provided field that is falsy: the client sends
  \<open>description: null\<close> when the description prompt is cancelled, and the created issue
  has the description \<open>""\<close>, not the provided \<open>null\<close>.
\<close>

theorem C5_counterexample:
  "get_prop (JObj [(''title'', JStr ''Fix bug''), (''description'', JNull),
                   (''status'', JStr ''todo'')]) ''description'' = JNull
   \<and> fst (post_issue (JObj [(''title'', JStr ''Fix bug''), (''description'', JNull),
                             (''status'', JStr ''todo'')]) 5 empty_server) =
       \<lparr>status = 200,
        body = Json (JObj [(''issueId'', JStr (''issue_'' @ decimal 5)),
                           (''title'', JStr ''Fix bug''), (''description'', JStr []),
                           (''status'', JStr ''todo'')])\<rparr>
   \<and> JStr [] \<noteq> JNull"
  by (simp add: post_issue_def js_or_def ok_def Let_def)

theorem C5_create_issue_witness:
  "get_prop (JObj [(''title'', JStr ''Fix bug'')]) ''status'' = JUndefined
   \<and> truthy (get_prop (JObj [(''title'', JStr ''Fix bug'')]) ''title'')
   \<and> issues (store empty_server) = []
   \<and> fst (post_issue (JObj [(''title'', JStr ''Fix bug'')]) 5 empty_server) =
       \<lparr>status = 200,
        body = Json (JObj [(''issueId'', JStr (''issue_'' @ decimal 5)),
                           (''title'', JStr ''Fix bug''), (''description'', JStr []),
                           (''status'', JStr ''todo'')])\<rparr>
   \<and> (\<exists>i. filter (has_issueId (''issue_'' @ decimal 5))
              (issues (store (snd (post_issue (JObj [(''title'', JStr ''Fix bug'')]) 5
                 empty_server)))) = [i]
          \<and> get_prop (JObj i) ''status'' = JStr ''todo''
          \<and> get_prop (JObj i) ''title'' = JStr ''Fix bug'')
   \<and> get_prop (JObj [(''description'', JStr ''details''), (''status'', JStr ''done'')]) ''title''
       = JUndefined
   \<and> (\<exists>i. issues (store (snd (post_issue
              (JObj [(''description'', JStr ''details''), (''status'', JStr ''done'')]) 5
              empty_server))) = [i]
          \<and> get_prop (JObj i) ''title'' = JStr ''Untitled''
          \<and> get_prop (JObj i) ''description'' = JStr ''details''
          \<and> get_prop (JObj i) ''status'' = JStr ''done'')"
proof -
  have h: "\<forall>j\<in>set (issues (store empty_server)). \<not> has_issueId (''issue_'' @ decimal 5) j"
    by (simp add: empty_server_def startup_def load_def default_store_def)
  have e: "issues (store empty_server) = []"
    by (simp add: empty_server_def startup_def load_def default_store_def)
  from C5_create_issue[of "JObj [(''title'', JStr ''Fix bug'')]" 5 empty_server]
    C5_create_issue[of "JObj [(''description'', JStr ''details''), (''status'', JStr ''done'')]"
      5 empty_server] h e
  show ?thesis by auto
qed

text \<open>
  C6, as amended. When the list has an issue with the given identifier, \<open>DELETE\<close> takes
  out the first such issue and nothing else (the issues before it and after it stay, in
  their order), saves, and answers 200 with \<open>{success: true, removed: [issue]}\<close>. When no
  issue has the identifier, it answers 404 with \<open>{error: "Issue not found"}\<close> and changes
  nothing. So a second \<open>DELETE\<close> of the identifier right after a successful one answers
  404 when the removed issue was the only one with that identifier; when a later issue has
  it too, the second \<open>DELETE\<close> removes that one.
\<close>

theorem C6_delete_issue:
  "(find (has_issueId iid) (issues (store sv)) = Some i \<longrightarrow>
      (\<exists>pre post.
          issues (store sv) = pre @ i # post
        \<and> (\<forall>j\<in>set pre. \<not> has_issueId iid j)
        \<and> delete_issue iid sv =
            (\<lparr>status = 200,
              body = Json (JObj [(''success'', JBool True), (''removed'', JArr [JObj i])])\<rparr>,
             sv\<lparr>store := (store sv)\<lparr>issues := pre @ post\<rparr>,
                written := Some ((store sv)\<lparr>issues := pre @ post\<rparr>)\<rparr>)
        \<and> ((\<forall>j\<in>set post. \<not> has_issueId iid j) \<longrightarrow>
              delete_issue iid (snd (delete_issue iid sv)) =
                (\<lparr>status = 404, body = Json (JObj [(''error'', JStr ''Issue not found'')])\<rparr>,
                 snd (delete_issue iid sv)))
        \<and> (\<forall>i2. find (has_issueId iid) post = Some i2 \<longrightarrow>
              fst (delete_issue iid (snd (delete_issue iid sv))) =
                \<lparr>status = 200,
                 body = Json (JObj [(''success'', JBool True), (''removed'', JArr [JObj i2])])\<rparr>)))
   \<and> ((\<forall>j\<in>set (issues (store sv2)). \<not> has_issueId iid2 j) \<longrightarrow>
        delete_issue iid2 sv2 =
          (\<lparr>status = 404, body = Json (JObj [(''error'', JStr ''Issue not found'')])\<rparr>, sv2))"
proof (intro conjI impI)
  assume f: "find (has_issueId iid) (issues (store sv)) = Some i"
  from find_split[OF f] obtain pre post where
    s: "issues (store sv) = pre @ i # post" "\<forall>j\<in>set pre. \<not> has_issueId iid j" "has_issueId iid i"
    by blast
  note d = delete_issue_first[OF s]
  have after: "issues (store (snd (delete_issue iid sv))) = pre @ post"
    by (simp add: d)
  show "\<exists>pre post.
          issues (store sv) = pre @ i # post
        \<and> (\<forall>j\<in>set pre. \<not> has_issueId iid j)
        \<and> delete_issue iid sv =
            (\<lparr>status = 200,
              body = Json (JObj [(''success'', JBool True), (''removed'', JArr [JObj i])])\<rparr>,
             sv\<lparr>store := (store sv)\<lparr>issues := pre @ post\<rparr>,
                written := Some ((store sv)\<lparr>issues := pre @ post\<rparr>)\<rparr>)
        \<and> ((\<forall>j\<in>set post. \<not> has_issueId iid j) \<longrightarrow>
              delete_issue iid (snd (delete_issue iid sv)) =
                (\<lparr>status = 404, body = Json (JObj [(''error'', JStr ''Issue not found'')])\<rparr>,
                 snd (delete_issue iid sv)))
        \<and> (\<forall>i2. find (has_issueId iid) post = Some i2 \<longrightarrow>
              fst (delete_issue iid (snd (delete_issue iid sv))) =
                \<lparr>status = 200,
                 body = Json (JObj [(''success'', JBool True), (''removed'', JArr [JObj i2])])\<rparr>)"
  proof (intro exI conjI impI allI)
    show "issues (store sv) = pre @ i # post" by (rule s(1))
    show "\<forall>j\<in>set pre. \<not> has_issueId iid j" by (rule s(2))
    show "delete_issue iid sv =
            (\<lparr>status = 200,
              body = Json (JObj [(''success'', JBool True), (''removed'', JArr [JObj i])])\<rparr>,
             sv\<lparr>store := (store sv)\<lparr>issues := pre @ post\<rparr>,
                written := Some ((store sv)\<lparr>issues := pre @ post\<rparr>)\<rparr>)"
      by (rule d)
    show "delete_issue iid (snd (delete_issue iid sv)) =
                (\<lparr>status = 404, body = Json (JObj [(''error'', JStr ''Issue not found'')])\<rparr>,
                 snd (delete_issue iid sv))"
      if "\<forall>j\<in>set post. \<not> has_issueId iid j"
    proof (rule delete_issue_missing)
      show "\<forall>j\<in>set (issues (store (snd (delete_issue iid sv)))). \<not> has_issueId iid j"
        using that s(2) by (simp add: after ball_Un)
    qed
    show "fst (delete_issue iid (snd (delete_issue iid sv))) =
                \<lparr>status = 200,
                 body = Json (JObj [(''success'', JBool True), (''removed'', JArr [JObj i2])])\<rparr>"
      if f2: "find (has_issueId iid) post = Some i2" for i2
    proof -
      from find_split[OF f2] obtain mid rest where
        t: "post = mid @ i2 # rest" "\<forall>j\<in>set mid. \<not> has_issueId iid j" "has_issueId iid i2"
        by blast
      have a: "issues (store (snd (delete_issue iid sv))) = (pre @ mid) @ i2 # rest"
        by (simp add: after t(1))
      have n: "\<forall>j\<in>set (pre @ mid). \<not> has_issueId iid j"
        using s(2) t(2) by (simp add: ball_Un)
      show ?thesis
        by (simp add: delete_issue_first[OF a n t(3)])
    qed
  qed
next
  assume "\<forall>j\<in>set (issues (store sv2)). \<not> has_issueId iid2 j"
  then show "delete_issue iid2 sv2 =
          (\<lparr>status = 404, body = Json (JObj [(''error'', JStr ''Issue not found'')])\<rparr>, sv2)"
    by (rule delete_issue_missing)
qed

text \<open>
  The claim as stated fails right after a successful delete when another issue has the
  same identifier: of two issues created within the same millisecond the first
  \<open>DELETE\<close> removes one, and the second \<open>DELETE\<close> of the identifier answers 200 again.
\<close>

theorem C6_counterexample:
  "status (fst (delete_issue (''issue_'' @ decimal 5) two_issues)) = 200
   \<and> status (fst (delete_issue (''issue_'' @ decimal 5)
                 (snd (delete_issue (''issue_'' @ decimal 5) two_issues)))) \<noteq> 404"
  by (simp add: two_issues_def empty_server_def startup_def load_def default_store_def
      post_issue_def delete_issue_def js_or_def saveData_def has_issueId_def ok_def Let_def)

theorem C6_delete_issue_witness:
  "find (has_issueId (''issue_'' @ decimal 5)) (issues (store two_issues)) =
     Some [(''issueId'', JStr (''issue_'' @ decimal 5)), (''title'', JStr ''first''),
           (''description'', JStr []), (''status'', JStr ''todo'')]
   \<and> issues (store empty_server) = []
   \<and> (\<exists>second.
         issues (store (snd (delete_issue (''issue_'' @ decimal 5) two_issues))) = [second]
       \<and> get_prop (JObj second) ''title'' = JStr ''second'')
   \<and> status (fst (delete_issue (''issue_'' @ decimal 5) two_issues)) = 200
   \<and> status (fst (delete_issue ''issue_0'' empty_server)) = 404
   \<and> snd (delete_issue ''issue_0'' empty_server) = empty_server
   \<and> status (fst (delete_issue (''issue_'' @ decimal 5)
        (snd (delete_issue (''issue_'' @ decimal 5)
           (snd (post_issue (JObj [(''title'', JStr ''first'')]) 5 empty_server)))))) = 404"
proof -
  let ?first = "[(''issueId'', JStr (''issue_'' @ decimal 5)), (''title'', JStr ''first''),
           (''description'', JStr []), (''status'', JStr ''todo'')]"
  let ?second = "[(''issueId'', JStr (''issue_'' @ decimal 5)), (''title'', JStr ''second''),
           (''description'', JStr []), (''status'', JStr ''todo'')]"
  have l: "issues (store two_issues) = [?first, ?second]"
    by (simp add: two_issues_def empty_server_def startup_def load_def default_store_def
        post_issue_def js_or_def saveData_def Let_def)
  have h1: "find (has_issueId (''issue_'' @ decimal 5)) (issues (store two_issues)) = Some ?first"
    by (simp add: l has_issueId_def)
  have e: "issues (store empty_server) = []"
    by (simp add: empty_server_def startup_def load_def default_store_def)
  then have h2: "\<forall>j\<in>set (issues (store empty_server)). \<not> has_issueId ''issue_0'' j"
    by simp
  from C6_delete_issue[of "''issue_'' @ decimal 5" two_issues ?first empty_server "''issue_0''"]
    h1 h2
  obtain pre post where
    c: "issues (store two_issues) = pre @ ?first # post"
       "\<forall>j\<in>set pre. \<not> has_issueId (''issue_'' @ decimal 5) j"
       "delete_issue (''issue_'' @ decimal 5) two_issues =
            (\<lparr>status = 200,
              body = Json (JObj [(''success'', JBool True), (''removed'', JArr [JObj ?first])])\<rparr>,
             two_issues\<lparr>store := (store two_issues)\<lparr>issues := pre @ post\<rparr>,
                written := Some ((store two_issues)\<lparr>issues := pre @ post\<rparr>)\<rparr>)"
    and m: "delete_issue ''issue_0'' empty_server =
          (\<lparr>status = 404, body = Json (JObj [(''error'', JStr ''Issue not found'')])\<rparr>,
           empty_server)"
    by blast
  have "pre = []"
    using c(1,2) by (cases pre) (simp_all add: l has_issueId_def)
  with c(1) have "post = [?second]" by (simp add: l)
  with \<open>pre = []\<close> c(3) have two:
    "issues (store (snd (delete_issue (''issue_'' @ decimal 5) two_issues))) = [?second]"
    "status (fst (delete_issue (''issue_'' @ decimal 5) two_issues)) = 200"
    by simp_all
  let ?one = "snd (post_issue (JObj [(''title'', JStr ''first'')]) 5 empty_server)"
  have l1: "issues (store ?one) = [?first]"
    by (simp add: empty_server_def startup_def load_def default_store_def
        post_issue_def js_or_def saveData_def Let_def)
  have h3: "find (has_issueId (''issue_'' @ decimal 5)) (issues (store ?one)) = Some ?first"
    by (simp add: l1 has_issueId_def)
  from C6_delete_issue[of "''issue_'' @ decimal 5" ?one ?first empty_server "''issue_0''"] h3
  obtain pre1 post1 where
    c1: "issues (store ?one) = pre1 @ ?first # post1"
        "(\<forall>j\<in>set post1. \<not> has_issueId (''issue_'' @ decimal 5) j) \<longrightarrow>
           delete_issue (''issue_'' @ decimal 5) (snd (delete_issue (''issue_'' @ decimal 5) ?one)) =
             (\<lparr>status = 404, body = Json (JObj [(''error'', JStr ''Issue not found'')])\<rparr>,
              snd (delete_issue (''issue_'' @ decimal 5) ?one))"
    by blast
  have "post1 = []"
    using c1(1) by (cases pre1) (simp_all add: l1)
  with c1(2) have one:
    "status (fst (delete_issue (''issue_'' @ decimal 5)
        (snd (delete_issue (''issue_'' @ decimal 5) ?one)))) = 404"
    by simp
  show ?thesis using two one m h1 e by simp
qed

text \<open>
  C7. For every server state and every identifier that no issue of the list has,
  \<open>PUT /api/issues/:issueId\<close> answers 404 with \<open>{error: "Issue not found"}\<close> and the whole
  state is as before: the store with its issue list, and what was last saved.
\<close>

theorem C7_put_missing:
  "(\<forall>i\<in>set (issues (store sv)). \<not> has_issueId iid i) \<Longrightarrow>
   put_issue iid b sv =
     (\<lparr>status = 404, body = Json (JObj [(''error'', JStr ''Issue not found'')])\<rparr>, sv)"
  by (rule put_issue_missing)

theorem C7_put_missing_witness:
  "issues (store two_issues) \<noteq> []
   \<and> list_all (\<lambda>i. \<not> has_issueId ''issue_0'' i) (issues (store two_issues))
   \<and> put_issue ''issue_0'' (JObj [(''status'', JStr ''done'')]) two_issues =
       (\<lparr>status = 404, body = Json (JObj [(''error'', JStr ''Issue not found'')])\<rparr>, two_issues)"
proof -
  let ?first = "[(''issueId'', JStr (''issue_'' @ decimal 5)), (''title'', JStr ''first''),
           (''description'', JStr []), (''status'', JStr ''todo'')]"
  let ?second = "[(''issueId'', JStr (''issue_'' @ decimal 5)), (''title'', JStr ''second''),
           (''description'', JStr []), (''status'', JStr ''todo'')]"
  have l: "issues (store two_issues) = [?first, ?second]"
    by (simp add: two_issues_def empty_server_def startup_def load_def default_store_def
        post_issue_def js_or_def saveData_def Let_def)
  have d: "decimal 5 \<noteq> ''0''" by code_simp
  have h: "\<forall>i\<in>set (issues (store two_issues)). \<not> has_issueId ''issue_0'' i"
    using d by (simp add: l has_issueId_def)
  from C7_put_missing[OF h, of "JObj [(''status'', JStr ''done'')]"] h
  show ?thesis by (simp add: l list_all_iff)
qed

lemma map_of_set_prop:
  "map_of (set_prop k v ps) k' = (if k' = k then Some v else map_of ps k')"
  by (induction ps) auto

lemma map_of_fold_set_prop:
  "map_of (fold (\<lambda>k acc. if k = p then acc else set_prop k (g k) acc) ks t) k =
     (if k \<in> set ks \<and> k \<noteq> p then Some (g k) else map_of t k)"
  by (induction ks arbitrary: t) (auto simp: map_of_set_prop)

lemma get_prop_object_assign:
  "get_prop (JObj (object_assign i b)) k =
     (if k \<in> set (own_keys b) \<and> k \<noteq> ''__proto__'' then get_prop b k
      else get_prop (JObj i) k)"
  by (simp add: object_assign_def map_of_fold_set_prop)

text \<open>
  C8, as amended. The merge of \<open>PUT /api/issues/:issueId\<close> protects no field: for the
  first issue with the identifier, every key of the request body, \<open>issueId\<close> and
  \<open>status\<close> with any value included (only the key \<open>__proto__\<close>, which is no member, left
  out), takes the body's value, every other member stays, and
  the response is the merged issue, which takes the place of the old one. When the body
  has an \<open>issueId\<close> other than the addressed one and no later issue has the addressed
  identifier, requests addressed to the original identifier answer 404 afterwards, while
  the merged issue is in the list with the body's \<open>issueId\<close>.
\<close>

theorem C8_put_merges:
  assumes "find (has_issueId iid) (issues (store sv)) = Some i"
  shows "\<exists>pre post.
      issues (store sv) = pre @ i # post
    \<and> (\<forall>j\<in>set pre. \<not> has_issueId iid j)
    \<and> put_issue iid b sv =
        (\<lparr>status = 200, body = Json (JObj (object_assign i b))\<rparr>,
         sv\<lparr>store := (store sv)\<lparr>issues := pre @ object_assign i b # post\<rparr>,
            written := Some ((store sv)\<lparr>issues := pre @ object_assign i b # post\<rparr>)\<rparr>)
    \<and> (\<forall>k\<in>set (own_keys b).
           k \<noteq> ''__proto__'' \<longrightarrow> get_prop (JObj (object_assign i b)) k = get_prop b k)
    \<and> (\<forall>k. k \<notin> set (own_keys b) \<longrightarrow>
           get_prop (JObj (object_assign i b)) k = get_prop (JObj i) k)
    \<and> (''issueId'' \<in> set (own_keys b) \<and> get_prop b ''issueId'' \<noteq> JStr iid
         \<and> (\<forall>j\<in>set post. \<not> has_issueId iid j) \<longrightarrow>
           put_issue iid b2 (snd (put_issue iid b sv)) =
             (\<lparr>status = 404, body = Json (JObj [(''error'', JStr ''Issue not found'')])\<rparr>,
              snd (put_issue iid b sv))
         \<and> delete_issue iid (snd (put_issue iid b sv)) =
             (\<lparr>status = 404, body = Json (JObj [(''error'', JStr ''Issue not found'')])\<rparr>,
              snd (put_issue iid b sv))
         \<and> object_assign i b \<in> set (issues (store (snd (put_issue iid b sv))))
         \<and> get_prop (JObj (object_assign i b)) ''issueId'' = get_prop b ''issueId'')"
proof -
  from find_split[OF assms] obtain pre post where
    s: "issues (store sv) = pre @ i # post" "\<forall>j\<in>set pre. \<not> has_issueId iid j" "has_issueId iid i"
    by blast
  note p = put_issue_first[OF s, of b]
  have after: "issues (store (snd (put_issue iid b sv))) = pre @ object_assign i b # post"
    by (simp add: p)
  show ?thesis
  proof (intro exI conjI impI allI ballI)
    show "issues (store sv) = pre @ i # post" by (rule s(1))
    show "\<And>j. j \<in> set pre \<Longrightarrow> \<not> has_issueId iid j" using s(2) by blast
    show "put_issue iid b sv =
        (\<lparr>status = 200, body = Json (JObj (object_assign i b))\<rparr>,
         sv\<lparr>store := (store sv)\<lparr>issues := pre @ object_assign i b # post\<rparr>,
            written := Some ((store sv)\<lparr>issues := pre @ object_assign i b # post\<rparr>)\<rparr>)"
      by (rule p)
    show "\<And>k. k \<in> set (own_keys b) \<Longrightarrow> k \<noteq> ''__proto__'' \<Longrightarrow>
            get_prop (JObj (object_assign i b)) k = get_prop b k"
      by (simp only: get_prop_object_assign simp_thms if_True)
    show "\<And>k. k \<notin> set (own_keys b) \<Longrightarrow>
            get_prop (JObj (object_assign i b)) k = get_prop (JObj i) k"
      by (simp only: get_prop_object_assign simp_thms if_False)
  next
    assume h: "''issueId'' \<in> set (own_keys b) \<and> get_prop b ''issueId'' \<noteq> JStr iid
         \<and> (\<forall>j\<in>set post. \<not> has_issueId iid j)"
    have q: "''issueId'' \<noteq> ''__proto__''" by simp
    from h have "\<not> has_issueId iid (object_assign i b)"
      by (simp only: has_issueId_def get_prop_object_assign q simp_thms if_True)
    with h s(2) have none:
      "\<forall>j\<in>set (issues (store (snd (put_issue iid b sv)))). \<not> has_issueId iid j"
      by (simp add: after ball_Un)
    show "put_issue iid b2 (snd (put_issue iid b sv)) =
             (\<lparr>status = 404, body = Json (JObj [(''error'', JStr ''Issue not found'')])\<rparr>,
              snd (put_issue iid b sv))"
      using none by (rule put_issue_missing)
    show "delete_issue iid (snd (put_issue iid b sv)) =
             (\<lparr>status = 404, body = Json (JObj [(''error'', JStr ''Issue not found'')])\<rparr>,
              snd (put_issue iid b sv))"
      using none by (rule delete_issue_missing)
    show "object_assign i b \<in> set (issues (store (snd (put_issue iid b sv))))"
      by (simp add: after)
    show "get_prop (JObj (object_assign i b)) ''issueId'' = get_prop b ''issueId''"
      using h by (simp only: get_prop_object_assign q simp_thms if_True)
  qed
qed

text \<open>
  The claim as stated fails when another issue has the original identifier: of two issues
  created within the same millisecond, a \<open>PUT\<close> that gives the first a new \<open>issueId\<close>
  leaves the second under the original identifier, and the next request addressed to it
  answers 200.
\<close>

theorem C8_counterexample:
  "status (fst (put_issue (''issue_'' @ decimal 5) (JObj [(''issueId'', JStr ''renamed'')])
                  two_issues)) = 200
   \<and> status (fst (put_issue (''issue_'' @ decimal 5) (JObj [])
        (snd (put_issue (''issue_'' @ decimal 5) (JObj [(''issueId'', JStr ''renamed'')])
                two_issues)))) \<noteq> 404"
  by (simp add: two_issues_def empty_server_def startup_def load_def default_store_def
      post_issue_def put_issue_def object_assign_def js_or_def saveData_def has_issueId_def
      ok_def Let_def)

theorem C8_put_merges_witness:
  "find (has_issueId (''issue_'' @ decimal 5))
     (issues (store (snd (post_issue (JObj [(''title'', JStr ''first'')]) 5 empty_server)))) =
     Some [(''issueId'', JStr (''issue_'' @ decimal 5)), (''title'', JStr ''first''),
           (''description'', JStr []), (''status'', JStr ''todo'')]
   \<and> ''issueId'' \<in> set (own_keys (JObj [(''issueId'', JStr ''renamed''),
                                          (''status'', JStr ''blocked'')]))
   \<and> get_prop (JObj [(''issueId'', JStr ''renamed''), (''status'', JStr ''blocked'')]) ''issueId''
       \<noteq> JStr (''issue_'' @ decimal 5)
   \<and> issues (store (snd (put_issue (''issue_'' @ decimal 5)
          (JObj [(''issueId'', JStr ''renamed''), (''status'', JStr ''blocked'')])
          (snd (post_issue (JObj [(''title'', JStr ''first'')]) 5 empty_server))))) =
       [[(''issueId'', JStr ''renamed''), (''title'', JStr ''first''),
         (''description'', JStr []), (''status'', JStr ''blocked'')]]
   \<and> status (fst (put_issue (''issue_'' @ decimal 5) (JObj [(''status'', JStr ''done'')])
        (snd (put_issue (''issue_'' @ decimal 5)
          (JObj [(''issueId'', JStr ''renamed''), (''status'', JStr ''blocked'')])
          (snd (post_issue (JObj [(''title'', JStr ''first'')]) 5 empty_server)))))) = 404"
proof -
  let ?sv = "snd (post_issue (JObj [(''title'', JStr ''first'')]) 5 empty_server)"
  let ?i = "[(''issueId'', JStr (''issue_'' @ decimal 5)), (''title'', JStr ''first''),
           (''description'', JStr []), (''status'', JStr ''todo'')]"
  let ?b = "JObj [(''issueId'', JStr ''renamed''), (''status'', JStr ''blocked'')]"
  have l: "issues (store ?sv) = [?i]"
    by (simp add: empty_server_def startup_def load_def default_store_def
        post_issue_def js_or_def saveData_def Let_def)
  have h: "find (has_issueId (''issue_'' @ decimal 5)) (issues (store ?sv)) = Some ?i"
    by (simp add: l has_issueId_def)
  have k: "''issueId'' \<in> set (own_keys ?b)" by simp
  have n: "get_prop ?b ''issueId'' \<noteq> JStr (''issue_'' @ decimal 5)" by simp
  have m: "object_assign ?i ?b =
       [(''issueId'', JStr ''renamed''), (''title'', JStr ''first''),
        (''description'', JStr []), (''status'', JStr ''blocked'')]"
    by (simp add: object_assign_def)
  from C8_put_merges[OF h, of ?b "JObj [(''status'', JStr ''done'')]"]
  obtain pre post where
    c: "issues (store ?sv) = pre @ ?i # post"
       "put_issue (''issue_'' @ decimal 5) ?b ?sv =
        (\<lparr>status = 200, body = Json (JObj (object_assign ?i ?b))\<rparr>,
         ?sv\<lparr>store := (store ?sv)\<lparr>issues := pre @ object_assign ?i ?b # post\<rparr>,
            written := Some ((store ?sv)\<lparr>issues := pre @ object_assign ?i ?b # post\<rparr>)\<rparr>)"
       "''issueId'' \<in> set (own_keys ?b) \<and> get_prop ?b ''issueId'' \<noteq> JStr (''issue_'' @ decimal 5)
         \<and> (\<forall>j\<in>set post. \<not> has_issueId (''issue_'' @ decimal 5) j) \<longrightarrow>
           put_issue (''issue_'' @ decimal 5) (JObj [(''status'', JStr ''done'')])
              (snd (put_issue (''issue_'' @ decimal 5) ?b ?sv)) =
             (\<lparr>status = 404, body = Json (JObj [(''error'', JStr ''Issue not found'')])\<rparr>,
              snd (put_issue (''issue_'' @ decimal 5) ?b ?sv))"
    by blast
  have pp: "pre = [] \<and> post = []"
    using c(1) by (cases pre) (simp_all add: l)
  then have "\<forall>j\<in>set post. \<not> has_issueId (''issue_'' @ decimal 5) j" by simp
  with c(3) k n have
    "put_issue (''issue_'' @ decimal 5) (JObj [(''status'', JStr ''done'')])
        (snd (put_issue (''issue_'' @ decimal 5) ?b ?sv)) =
       (\<lparr>status = 404, body = Json (JObj [(''error'', JStr ''Issue not found'')])\<rparr>,
        snd (put_issue (''issue_'' @ decimal 5) ?b ?sv))"
    by blast
  moreover have "issues (store (snd (put_issue (''issue_'' @ decimal 5) ?b ?sv))) =
       [[(''issueId'', JStr ''renamed''), (''title'', JStr ''first''),
         (''description'', JStr []), (''status'', JStr ''blocked'')]]"
    using pp c(2) m by simp
  ultimately show ?thesis using h k n by simp
qed

section \<open>Loading at startup: properties\<close>

text \<open>
  C9, as amended. Loading never fails: for every data file and every parser it yields a
  store. When the file is absent the store is the empty default
  \<open>{graphData: {nodes: [], links: []}, documents: [], issues: []}\<close> and nothing is logged.
  When the file is present but cannot be read, or its text does not parse, the store is
  the empty default and the error is logged. When the text parses, the store is the parsed
  value, and that is logged.
\<close>

theorem C9_load:
  "load parse Absent = (default_store, [])
   \<and> load parse Unreadable =
       (default_store, [Error ''Error reading careerData.json, starting with empty data:''])
   \<and> (parse raw = None \<longrightarrow>
        load parse (Contents raw) =
          (default_store, [Error ''Error reading careerData.json, starting with empty data:'']))
   \<and> (parse raw2 = Some v \<longrightarrow>
        load parse (Contents raw2) = (v, [Info ''Loaded existing data from careerData.json'']))
   \<and> (fst (load parse f) = default_store
        \<or> (\<exists>text. f = Contents text \<and> parse text = Some (fst (load parse f))))
   \<and> default_store =
       \<lparr>graphData = JObj [(''nodes'', JArr []), (''links'', JArr [])],
        documents = [], issues = []\<rparr>"
  by (auto simp: load_def default_store_def split: data_file.splits option.splits)

text \<open>
  The claim as stated fails for the absent file: the store is the empty default, and the
  log is empty.
\<close>

theorem C9_counterexample:
  "load (\<lambda>raw. None) Absent = (default_store, [])
   \<and> snd (load (\<lambda>raw. None) Absent) = []"
  by (simp add: load_def)

theorem C9_load_witness:
  "(\<lambda>raw. if raw = ''{'' then None else Some (store older_version)) ''{'' = None
   \<and> (\<lambda>raw. if raw = ''{'' then None else Some (store older_version)) ''data''
       = Some (store older_version)
   \<and> load (\<lambda>raw. if raw = ''{'' then None else Some (store older_version)) (Contents ''{'') =
       (default_store, [Error ''Error reading careerData.json, starting with empty data:''])
   \<and> load (\<lambda>raw. if raw = ''{'' then None else Some (store older_version)) (Contents ''data'') =
       (store older_version, [Info ''Loaded existing data from careerData.json''])"
  using C9_load[of "\<lambda>raw. if raw = ''{'' then None else Some (store older_version)"
      "''{''" "''data''" "store older_version" Absent]
  by simp

section \<open>Client graph view: properties\<close>
















end
